theory Spec2Isabelle
  imports Main "HOL-Library.Word"
begin

section \<open>The home page of the booking front end\<close>

text \<open>
  The front end declares two things: the class \<open>HomeComponent\<close>, a holder of the
  literal data that the home page's template displays, and the route table
  \<open>routes\<close> of the application. Both are embedded here as they are written.
\<close>

subsection \<open>Strings\<close>

text \<open>
  A TypeScript string is a sequence of UTF-16 code units, and its \<open>length\<close> counts
  them. The literals of the page are partly Cyrillic, so a string is a list of 16-bit
  words: a literal with characters beyond ASCII is written as the list of its code
  units (every character of the source lies in the Basic Multilingual Plane, one unit
  each), a plain ASCII literal through \<open>ascii\<close>.
\<close>

type_synonym jsstring = "16 word list"

definition ascii :: "string \<Rightarrow> jsstring" where
  "ascii cs = map (\<lambda>c. of_nat (of_char c)) cs"

subsection \<open>The entries of the view-model\<close>

text \<open>
  The three arrays of the class hold object literals; each shape is a record with the
  literal's property names. Two names are taken by Isabelle: the property \<open>image\<close> of
  a service is the field \<open>image_field\<close> (\<open>image\<close> is the image of a set under a
  function), and the property \<open>value\<close> of a stat keeps its name, quoted where it is
  declared. The property \<open>label\<close> belongs to two shapes and is written qualified,
  \<open>stat.label\<close> and \<open>footer_link.label\<close>.
\<close>

record service =
  title :: jsstring
  description :: jsstring
  price :: jsstring
  icon :: jsstring
  color :: jsstring
  image_field :: jsstring

record stat =
  "value" :: jsstring
  label :: jsstring

record footer_link =
  label :: jsstring
  href :: jsstring

subsection \<open>The class \<open>HomeComponent\<close>\<close>

text \<open>
  The class body is four property declarations with initialisers and nothing else: no
  constructor, no accessor and no method.
\<close>

record HomeComponent =
  isLoggedIn :: bool
  services :: "service list"
  stats :: "stat list"
  footerLinks :: "footer_link list"

text \<open>
  \<open>new HomeComponent()\<close> takes no argument and runs the four initialisers in the order
  of their declaration. An initialiser is an expression, and an expression is evaluated
  in the state the running program is in at that moment: its globals, its storage, the
  clock, whatever an expression could read. That state is the parameter \<open>w\<close> of the
  constructor, of any type. All four initialisers of the class are literals. The arrays
  keep the order of the source.
\<close>

definition new_HomeComponent :: "'w \<Rightarrow> HomeComponent" where
  "new_HomeComponent w =
    \<lparr>isLoggedIn = False,
     services =
       [\<lparr>title = [0x421, 0x442, 0x440, 0x438, 0x436, 0x43A, 0x438, 0x20, 0x438,
                   0x20, 0x443, 0x43A, 0x43B, 0x430, 0x434, 0x43A, 0x438],
          description = [0x41C, 0x43E, 0x434, 0x43D, 0x44B, 0x435, 0x20, 0x441,
                         0x442, 0x440, 0x438, 0x436, 0x43A, 0x438, 0x2C, 0x20,
                         0x43F, 0x440, 0x43E, 0x444, 0x435, 0x441, 0x441, 0x438,
                         0x43E, 0x43D, 0x430, 0x43B, 0x44C, 0x43D, 0x44B, 0x435,
                         0x20, 0x443, 0x43A, 0x43B, 0x430, 0x434, 0x43A, 0x438,
                         0x20, 0x438, 0x20, 0x43E, 0x43A, 0x440, 0x430, 0x448,
                         0x438, 0x432, 0x430, 0x43D, 0x438, 0x435, 0x20, 0x432,
                         0x43E, 0x43B, 0x43E, 0x441],
          price = [0x43E, 0x442, 0x20, 0x31, 0x20, 0x35, 0x30, 0x30, 0x20, 0x20BD],
          icon = ascii ''scissors'',
          color = ascii ''pink'',
          image_field = ascii ''https://images.unsplash.com/photo-1563798163029-5448a0ffd596?w=600&q=80''\<rparr>,
        \<lparr>title = [0x41C, 0x430, 0x43D, 0x438, 0x43A, 0x44E, 0x440, 0x20, 0x438,
                   0x20, 0x43F, 0x435, 0x434, 0x438, 0x43A, 0x44E, 0x440],
          description = [0x41A, 0x43B, 0x430, 0x441, 0x441, 0x438, 0x447, 0x435,
                         0x441, 0x43A, 0x438, 0x439, 0x20, 0x438, 0x20, 0x430,
                         0x43F, 0x43F, 0x430, 0x440, 0x430, 0x442, 0x43D, 0x44B,
                         0x439, 0x20, 0x43C, 0x430, 0x43D, 0x438, 0x43A, 0x44E,
                         0x440, 0x2C, 0x20, 0x43F, 0x435, 0x434, 0x438, 0x43A,
                         0x44E, 0x440, 0x2C, 0x20, 0x434, 0x438, 0x437, 0x430,
                         0x439, 0x43D, 0x20, 0x43D, 0x43E, 0x433, 0x442, 0x435,
                         0x439],
          price = [0x43E, 0x442, 0x20, 0x31, 0x20, 0x32, 0x30, 0x30, 0x20, 0x20BD],
          icon = ascii ''sparkles'',
          color = ascii ''purple'',
          image_field = ascii ''https://images.unsplash.com/photo-1727199433272-70fdb94c8430?w=600&q=80''\<rparr>,
        \<lparr>title = [0x421, 0x41F, 0x410, 0x20, 0x43F, 0x440, 0x43E, 0x446, 0x435,
                   0x434, 0x443, 0x440, 0x44B],
          description = [0x41C, 0x430, 0x441, 0x441, 0x430, 0x436, 0x2C, 0x20,
                         0x443, 0x445, 0x43E, 0x434, 0x20, 0x437, 0x430, 0x20,
                         0x43A, 0x43E, 0x436, 0x435, 0x439, 0x20, 0x43B, 0x438,
                         0x446, 0x430, 0x20, 0x438, 0x20, 0x442, 0x435, 0x43B,
                         0x430, 0x2C, 0x20, 0x440, 0x435, 0x43B, 0x430, 0x43A,
                         0x441, 0x438, 0x440, 0x443, 0x44E, 0x449, 0x438, 0x435,
                         0x20, 0x43F, 0x440, 0x43E, 0x446, 0x435, 0x434, 0x443,
                         0x440, 0x44B],
          price = [0x43E, 0x442, 0x20, 0x32, 0x20, 0x30, 0x30, 0x30, 0x20, 0x20BD],
          icon = ascii ''star'',
          color = ascii ''indigo'',
          image_field = ascii ''https://images.unsplash.com/photo-1745327883508-b6cd32e5dde5?w=600&q=80''\<rparr>],
     stats =
       [\<lparr>value = ascii ''500+'',
          label = [0x414, 0x43E, 0x432, 0x43E, 0x43B, 0x44C, 0x43D, 0x44B, 0x445,
                   0x20, 0x43A, 0x43B, 0x438, 0x435, 0x43D, 0x442, 0x43E, 0x432]\<rparr>,
        \<lparr>value = ascii ''15+'',
          label = [0x41B, 0x435, 0x442, 0x20, 0x43E, 0x43F, 0x44B, 0x442, 0x430]\<rparr>,
        \<lparr>value = ascii ''4.9'',
          label = [0x420, 0x435, 0x439, 0x442, 0x438, 0x43D, 0x433]\<rparr>],
     footerLinks =
       [\<lparr>label = [0x421, 0x442, 0x440, 0x438, 0x436, 0x43A, 0x438],
          href = ascii ''#''\<rparr>,
        \<lparr>label = [0x41E, 0x43A, 0x440, 0x430, 0x448, 0x438, 0x432, 0x430, 0x43D,
                   0x438, 0x435],
          href = ascii ''#''\<rparr>,
        \<lparr>label = [0x41C, 0x430, 0x43D, 0x438, 0x43A, 0x44E, 0x440],
          href = ascii ''#''\<rparr>,
        \<lparr>label = [0x421, 0x41F, 0x410],
          href = ascii ''#''\<rparr>]\<rparr>"

subsection \<open>Assignments to an instance\<close>





text \<open>
  A run of the program after construction performs the assignments of a list, one
  after the other, on the instance: \<open>foldl assign c ws\<close>.
\<close>

subsection \<open>The route table\<close>

text \<open>
  The routes module imports two view classes, \<open>Login\<close> and \<open>HomeComponent\<close>; an entry
  of the table refers to a view class by name. The table has one entry.
\<close>

datatype component = HomeComponent | Login

record route =
  path :: jsstring
  component :: component

definition routes :: "route list" where
  "routes = [\<lparr>path = ascii '''', component = HomeComponent\<rparr>]"

section \<open>Shared facts\<close>






section \<open>Properties of the route table\<close>

text \<open>
  C1. The route table maps the root path, the empty string, to \<open>HomeComponent\<close>, and
  no two entries of the table have the same path. The table is read as the association
  list of its (path, component) pairs.
\<close>

theorem routes_root_and_unique:
  "map_of (map (\<lambda>r. (path r, component r)) routes) [] = Some HomeComponent
   \<and> distinct (map path routes)"
  by (simp add: routes_def ascii_def)

text \<open>
  C6. For every path other than the empty one the route table has no entry: no entry
  carries that path, and looking the path up in the table gives no component.
\<close>

theorem no_route_for_nonempty_path:
  assumes "p \<noteq> []"
  shows "p \<notin> set (map path routes)
    \<and> map_of (map (\<lambda>r. (path r, component r)) routes) p = None"
  using assms by (simp add: routes_def ascii_def)

theorem no_route_for_nonempty_path_witness:
  "ascii ''login'' \<noteq> []
   \<and> ascii ''login'' \<notin> set (map path routes)
   \<and> map_of (map (\<lambda>r. (path r, component r)) routes) (ascii ''login'') = None"
proof -
  have ne: "ascii ''login'' \<noteq> []"
    by (simp add: ascii_def)
  from ne no_route_for_nonempty_path [OF ne] show ?thesis
    by (rule conjI)
qed

section \<open>Properties of the view-model\<close>

text \<open>
  C2. The authentication flag is false at construction: in every freshly constructed
  \<open>HomeComponent\<close>, \<open>isLoggedIn\<close> is false.
\<close>

theorem isLoggedIn_false_at_construction:
  "isLoggedIn (new_HomeComponent u) = False"
  by (simp add: new_HomeComponent_def)

text \<open>
  C3. The services list has exactly 3 entries, and every entry has a non-empty title, a
  non-empty description, a non-empty price and a non-empty image.
\<close>

theorem services_three_nonempty:
  "length (services (new_HomeComponent u)) = 3
   \<and> (\<forall>s \<in> set (services (new_HomeComponent u)).
        title s \<noteq> [] \<and> description s \<noteq> [] \<and> price s \<noteq> [] \<and> image_field s \<noteq> [])"
  by (simp add: new_HomeComponent_def ascii_def)

theorem services_three_nonempty_witness:
  "hd (services (new_HomeComponent ())) \<in> set (services (new_HomeComponent ()))
   \<and> length (services (new_HomeComponent ())) = 3
   \<and> title (hd (services (new_HomeComponent ()))) \<noteq> []
   \<and> description (hd (services (new_HomeComponent ()))) \<noteq> []
   \<and> price (hd (services (new_HomeComponent ()))) \<noteq> []
   \<and> image_field (hd (services (new_HomeComponent ()))) \<noteq> []"
proof -
  have m: "hd (services (new_HomeComponent ())) \<in> set (services (new_HomeComponent ()))"
    by (simp add: new_HomeComponent_def)
  from services_three_nonempty [of "()"] m show ?thesis
    by blast
qed

text \<open>
  C4. The stats list has exactly 3 entries.
\<close>

theorem stats_three: "length (stats (new_HomeComponent u)) = 3"
  by (simp add: new_HomeComponent_def)

text \<open>
  C5. The footer links list has exactly 4 entries.
\<close>

theorem footerLinks_four: "length (footerLinks (new_HomeComponent u)) = 4"
  by (simp add: new_HomeComponent_def)

text \<open>
  C8. Every entry of the footer links list has the placeholder \<open>#\<close> as its \<open>href\<close>.
\<close>

theorem footerLinks_href_placeholder:
  "\<forall>l \<in> set (footerLinks (new_HomeComponent u)). href l = ascii ''#''"
  by (simp add: new_HomeComponent_def)

theorem footerLinks_href_placeholder_witness:
  "last (footerLinks (new_HomeComponent ())) \<in> set (footerLinks (new_HomeComponent ()))
   \<and> href (last (footerLinks (new_HomeComponent ()))) = ascii ''#''"
proof -
  have m: "last (footerLinks (new_HomeComponent ())) \<in> set (footerLinks (new_HomeComponent ()))"
    by (simp add: new_HomeComponent_def)
  from m footerLinks_href_placeholder [of "()"] show ?thesis
    by blast
qed

text \<open>
  C10. Every entry of the stats list has a non-empty \<open>value\<close> and a non-empty \<open>label\<close>.
\<close>

theorem stats_value_label_nonempty:
  "\<forall>s \<in> set (stats (new_HomeComponent u)). stat.value s \<noteq> [] \<and> stat.label s \<noteq> []"
  by (simp add: new_HomeComponent_def ascii_def)

theorem stats_value_label_nonempty_witness:
  "stats (new_HomeComponent ()) ! 1 \<in> set (stats (new_HomeComponent ()))
   \<and> stat.value (stats (new_HomeComponent ()) ! 1) \<noteq> []
   \<and> stat.label (stats (new_HomeComponent ()) ! 1) \<noteq> []"
proof -
  have m: "stats (new_HomeComponent ()) ! 1 \<in> set (stats (new_HomeComponent ()))"
    by (simp add: new_HomeComponent_def)
  from m stats_value_label_nonempty [of "()"] show ?thesis
    by blast
qed

text \<open>
  C9. Construction is deterministic: the constructor takes no input, and any two
  constructed instances, whatever state the program was in when each was constructed,
  agree on \<open>isLoggedIn\<close>, \<open>services\<close>, \<open>stats\<close> and \<open>footerLinks\<close>.
\<close>

theorem construction_deterministic:
  "isLoggedIn (new_HomeComponent w1) = isLoggedIn (new_HomeComponent w2)
   \<and> services (new_HomeComponent w1) = services (new_HomeComponent w2)
   \<and> stats (new_HomeComponent w1) = stats (new_HomeComponent w2)
   \<and> footerLinks (new_HomeComponent w1) = footerLinks (new_HomeComponent w2)"
  by (simp add: new_HomeComponent_def)




end
